theory Spec2Isabelle
  imports Main
begin

section \<open>Go values shared by the packages\<close>

text \<open>
  A Go function either returns or panics. A panic (an index out of range, a failed
  type assertion without the comma-ok form) is not an error value: it unwinds the
  handler. The model keeps the two apart.
\<close>

datatype 'a outcome = Panic string | Return 'a

text \<open>
  Error values as the code builds them: \<open>errors.New\<close> (and \<open>errors.Errorf\<close> with
  its \<open>%s\<close> argument already substituted), \<open>errors.Wrap\<close>, \<open>errors.Wrapf\<close> with one
  \<open>%d\<close> argument kept beside the format, \<open>errors.WithStack\<close>, and the package's
  \<open>RequestError\<close> (the status code of its \<open>Response\<close> and its \<open>Body\<close>; its wrapped
  cause \<open>Err\<close> is never read by the code modelled here).
\<close>

datatype go_error =
    New string
  | Wrap go_error string
  | Wrapf go_error string int
  | WithStack go_error
  | RequestError int string

text \<open>
  \<open>errors.As(err, &reqErr)\<close> with \<open>reqErr\<close> of type \<open>*RequestError\<close>: the first
  \<open>RequestError\<close> on the chain of wrapped errors, if there is one.
\<close>

fun As_RequestError :: "go_error \<Rightarrow> (int \<times> string) option" where
  "As_RequestError (RequestError status body) = Some (status, body)"
| "As_RequestError (Wrap e msg) = As_RequestError e"
| "As_RequestError (Wrapf e msg n) = As_RequestError e"
| "As_RequestError (WithStack e) = As_RequestError e"
| "As_RequestError (New msg) = None"

definition StatusUnauthorized :: int where
  "StatusUnauthorized = 401"

subsection \<open>Requests and responses\<close>

text \<open>
  Of \<open>http.Request\<close> the code reads form values, cookies and headers. Each is an
  association list in arrival order; a lookup takes the first entry of the name, as
  \<open>FormValue\<close>, \<open>Cookie\<close> and \<open>Header.Get\<close> do. \<open>FormValue\<close> and \<open>Header.Get\<close> give
  the empty string for a missing name, \<open>Cookie\<close> gives \<open>http.ErrNoCookie\<close>.

  The header map of a request holds its names in canonical form, and \<open>Header.Get\<close>
  looks up the canonical form of the name it is given
  (\<open>textproto.CanonicalMIMEHeaderKey\<close>): the first letter and every letter after a
  hyphen in upper case, the other letters in lower case; a name with a byte that no
  header name may contain is left as it is.
\<close>

record Request =
  Form :: "(string \<times> string) list"
  Cookies :: "(string \<times> string) list"
  req_Header :: "(string \<times> string) list"

definition FormValue :: "Request \<Rightarrow> string \<Rightarrow> string" where
  "FormValue r key = (case map_of (Form r) key of None \<Rightarrow> [] | Some v \<Rightarrow> v)"

definition ErrNoCookie :: go_error where
  "ErrNoCookie = New ''http: named cookie not present''"

definition Cookie :: "Request \<Rightarrow> string \<Rightarrow> go_error + string" where
  "Cookie r name = (case map_of (Cookies r) name of None \<Rightarrow> Inl ErrNoCookie | Some v \<Rightarrow> Inr v)"

definition isLower :: "char \<Rightarrow> bool" where
  "isLower c = (97 \<le> (of_char c :: nat) \<and> (of_char c :: nat) \<le> 122)"

definition isUpper :: "char \<Rightarrow> bool" where
  "isUpper c = (65 \<le> (of_char c :: nat) \<and> (of_char c :: nat) \<le> 90)"

definition isDigit :: "char \<Rightarrow> bool" where
  "isDigit c = (48 \<le> (of_char c :: nat) \<and> (of_char c :: nat) \<le> 57)"

definition toLower :: nat where
  "toLower = 32"

definition validHeaderFieldByte :: "char \<Rightarrow> bool" where
  "validHeaderFieldByte c =
     (isLower c \<or> isUpper c \<or> isDigit c \<or>
      c \<in> set [CHR ''!'', CHR ''#'', CHR ''$'', CHR ''%'', CHR ''&'', CHR 0x27, CHR ''*'',
        CHR ''+'', CHR ''-'', CHR ''.'', CHR ''^'', CHR ''_'', CHR 0x60, CHR ''|'', CHR ''~''])"

fun canonicalMIMEHeaderKey :: "bool \<Rightarrow> string \<Rightarrow> string" where
  "canonicalMIMEHeaderKey upper [] = []"
| "canonicalMIMEHeaderKey upper (c # cs) =
     (let c' = (if upper \<and> isLower c then char_of ((of_char c :: nat) - toLower)
                else if \<not> upper \<and> isUpper c then char_of ((of_char c :: nat) + toLower)
                else c)
      in c' # canonicalMIMEHeaderKey (c' = CHR ''-'') cs)"

definition CanonicalMIMEHeaderKey :: "string \<Rightarrow> string" where
  "CanonicalMIMEHeaderKey s =
     (if list_all validHeaderFieldByte s then canonicalMIMEHeaderKey True s else s)"

definition Header_Get :: "Request \<Rightarrow> string \<Rightarrow> string" where
  "Header_Get r key =
     (case map_of (req_Header r) (CanonicalMIMEHeaderKey key) of None \<Rightarrow> [] | Some v \<Rightarrow> v)"

text \<open>
  A cookie as \<open>http.SetCookie\<close> receives it, and the response under construction:
  its plain headers, and its \<open>Set-Cookie\<close> lines kept as cookies, in the order they
  were added.
\<close>

record SetCookie =
  cookie_Name :: string
  cookie_Value :: string
  cookie_Path :: string
  cookie_Domain :: string
  cookie_MaxAge :: int

record ResponseWriter =
  w_Header :: "string \<rightharpoonup> string"
  w_SetCookie :: "SetCookie list"

definition Header_Set :: "ResponseWriter \<Rightarrow> string \<Rightarrow> string \<Rightarrow> ResponseWriter" where
  "Header_Set w key v = w\<lparr>w_Header := (w_Header w)(key \<mapsto> v)\<rparr>"

definition http_SetCookie :: "ResponseWriter \<Rightarrow> SetCookie \<Rightarrow> ResponseWriter" where
  "http_SetCookie w c = w\<lparr>w_SetCookie := w_SetCookie w @ [c]\<rparr>"

section \<open>Sessions and the Session Store\<close>

text \<open>The state of a pending login (\<open>sessions/state.go\<close>).\<close>

record State =
  FirstVisitedURL :: string

text \<open>
  \<open>Session.Values\<close> is a bag of dynamically typed values; the code takes them out by
  type assertion. The variants are the types the code asserts.
\<close>

record Token =
  AccessToken :: string

datatype session_value =
    VState State
  | VString string
  | VStrings "string list"
  | VToken Token

record Session =
  ID :: string
  session_name :: string
  Values :: "string \<rightharpoonup> session_value"
  Options_MaxAge :: int
  Options_Path :: string
  Options_Domain :: string
  IsNew :: bool

text \<open>
  Modelled from the spec: the Session Store (the \<open>sessions.Store\<close> behind
  \<open>store.Get\<close> and \<open>session.Save\<close>) is not in the sources. The spec gives its
  contract: a key/value store of records keyed by the session identifier, with
  \<open>get(sessionID) -> (record, isNew)\<close> where \<open>isNew\<close> means no such session and is
  not an error, \<open>save(sessionID, record)\<close> with a time to live, and
  \<open>delete(sessionID)\<close>. The cookie of a session carries its identifier. The contract
  names no failure, so the model's operations never produce the error their Go
  signatures allow; the callers' handling of that error is modelled all the same.
\<close>

record StoredSession =
  stored_Values :: "string \<rightharpoonup> session_value"
  stored_MaxAge :: int

record Store =
  records :: "string \<rightharpoonup> StoredSession"

definition NewSession :: "string \<Rightarrow> Session" where
  "NewSession name =
     \<lparr>ID = [], session_name = name, Values = Map.empty, Options_MaxAge = 0,
      Options_Path = [], Options_Domain = [], IsNew = True\<rparr>"

definition store_Get :: "Store \<Rightarrow> Request \<Rightarrow> string \<Rightarrow> Session \<times> go_error option" where
  "store_Get store r name =
     (case Cookie r name of
        Inl err \<Rightarrow> (NewSession name, None)
      | Inr sid \<Rightarrow>
          (case records store sid of
             None \<Rightarrow> (NewSession name, None)
           | Some rec \<Rightarrow>
               ((NewSession name)\<lparr>ID := sid, Values := stored_Values rec,
                   Options_MaxAge := stored_MaxAge rec, IsNew := False\<rparr>, None)))"

text \<open>
  \<open>session.Save(r, w)\<close>, the store's \<open>save\<close>: a session without an identifier
  gets the one the store generates (\<open>new_id\<close>, random in the implementation); the
  record is written under the identifier with the session's \<open>MaxAge\<close> as its time to
  live, and the session's cookie, carrying the identifier, is added to the response.
\<close>

definition session_Save ::
  "Store \<Rightarrow> string \<Rightarrow> Session \<Rightarrow> ResponseWriter \<Rightarrow> go_error option \<times> Store \<times> ResponseWriter" where
  "session_Save store new_id session w =
     (let sid = (if ID session = [] then new_id else ID session) in
      (None,
       store\<lparr>records := (records store)(sid \<mapsto>
          \<lparr>stored_Values = Values session, stored_MaxAge = Options_MaxAge session\<rparr>)\<rparr>,
       http_SetCookie w \<lparr>cookie_Name = session_name session, cookie_Value = sid,
         cookie_Path = Options_Path session, cookie_Domain = Options_Domain session,
         cookie_MaxAge = Options_MaxAge session\<rparr>))"

text \<open>
  Modelled from the spec: \<open>revokeSession(ctx, w, session)\<close> of package \<open>sessions\<close> is
  not in the sources. The spec says of it that it deletes the underlying record of
  the Session Store; what it writes to the response is not specified and is left out.
\<close>

definition revokeSession :: "Store \<Rightarrow> Session \<Rightarrow> go_error option \<times> Store" where
  "revokeSession store session =
     (None, store\<lparr>records := (records store)(ID session := None)\<rparr>)"

section \<open>The State Codec: \<open>sessions/state.go\<close>\<close>

definition oidcStateCookie :: string where
  "oidcStateCookie = ''oidc_state_csrf''"

definition sessionValueState :: string where
  "sessionValueState = ''state''"

definition charset :: string where
  "charset = ''abcdefghijklmnopqrstuvwxyz''"

text \<open>
  \<open>strings.Split(s, sep)\<close> for a separator of one character: the pieces of \<open>s\<close>
  between the separators, a single piece (\<open>s\<close> itself) when there is none.
\<close>

fun Split :: "string \<Rightarrow> char \<Rightarrow> string list" where
  "Split [] sep = [[]]"
| "Split (c # cs) sep =
     (if c = sep then [] # Split cs sep
      else (case Split cs sep of
              [] \<Rightarrow> [[c]]
            | p # ps \<Rightarrow> (c # p) # ps))"

text \<open>The four failures of \<open>VerifyState\<close> that the spec names, as the code builds them.\<close>

definition MissingParameter :: go_error where
  "MissingParameter = New ''Missing url parameter: state''"

definition MissingCookie :: "string \<Rightarrow> go_error" where
  "MissingCookie name = New (''Missing cookie: '' @ [CHR 0x27] @ name @ [CHR 0x27])"

definition Mismatch :: go_error where
  "Mismatch =
     New (''State value from http params doesn't match '' @
          ''value in cookie. Possible reasons for this error include '' @
          ''opening the login form in more than 1 browser tabs OR a CSRF '' @
          ''attack.'')"

definition Expired :: go_error where
  "Expired = New ''State value not found in store, maybe it expired''"

text \<open>
  Lines 156 to 164 of \<open>VerifyState\<close>: the session identifier, the nonce and the
  cookie name that the state parameter stands for. Under dynamic cookie naming the
  parameter is split at the dots and its first two parts are taken; \<open>stateParamParts[1]\<close>
  on a parameter without a dot is an index out of range.
\<close>

definition stateParamParts :: "bool \<Rightarrow> string \<Rightarrow> (string \<times> string \<times> string) outcome" where
  "stateParamParts dynamicOidcStateCookieName stateParam =
     (if dynamicOidcStateCookieName then
        (case Split stateParam (CHR ''.'') of
           p0 # p1 # rest \<Rightarrow> Return (p0, p1, oidcStateCookie @ ''_'' @ p1)
         | _ \<Rightarrow> Panic ''index out of range [1] with length 1'')
      else Return (stateParam, [], oidcStateCookie))"

definition VerifyState ::
  "Request \<Rightarrow> Store \<Rightarrow> bool \<Rightarrow> ((State option \<times> go_error option) \<times> Store) outcome" where
  "VerifyState r store dynamicOidcStateCookieName =
     (let stateParam = FormValue r ''state'' in
      if length stateParam = 0 then Return ((None, Some MissingParameter), store)
      else
        (case stateParamParts dynamicOidcStateCookieName stateParam of
           Panic msg \<Rightarrow> Panic msg
         | Return (stateValue, nonce, oidcStateCookieName) \<Rightarrow>
             (case Cookie r oidcStateCookieName of
                Inl err \<Rightarrow> Return ((None, Some (MissingCookie oidcStateCookieName)), store)
              | Inr stateCookie \<Rightarrow>
                  if stateValue \<noteq> stateCookie then Return ((None, Some Mismatch), store)
                  else
                    (case store_Get store r oidcStateCookieName of
                       (session, Some err) \<Rightarrow> Return ((None, Some (WithStack err)), store)
                     | (session, None) \<Rightarrow>
                         if IsNew session then Return ((None, Some Expired), store)
                         else
                           (case Values session sessionValueState of
                              Some (VState state) \<Rightarrow>
                                (case revokeSession store session of
                                   (Some err, store') \<Rightarrow>
                                     Return ((None,
                                       Some (Wrap err ''error revoking state session'')), store')
                                 | (None, store') \<Rightarrow> Return ((Some state, None), store'))
                            | _ \<Rightarrow>
                                Panic ''interface conversion: interface {} is not sessions.State'')))))"

subsection \<open>Issuing a state\<close>

text \<open>
  The package's random source \<open>seededRand\<close>: a sequence of raw draws and the number
  already taken. \<open>Intn(n)\<close> gives a number below \<open>n\<close> and panics on \<open>n = 0\<close>.
\<close>

record Rand =
  draws :: "nat \<Rightarrow> nat"
  drawn :: nat

definition Intn :: "Rand \<Rightarrow> nat \<Rightarrow> (nat \<times> Rand) outcome" where
  "Intn g n =
     (if n = 0 then Panic ''invalid argument to Intn''
      else Return (draws g (drawn g) mod n, g\<lparr>drawn := drawn g + 1\<rparr>))"

fun stringWithCharset :: "nat \<Rightarrow> string \<Rightarrow> Rand \<Rightarrow> (string \<times> Rand) outcome" where
  "stringWithCharset 0 cs g = Return ([], g)"
| "stringWithCharset (Suc n) cs g =
     (case Intn g (length cs) of
        Panic msg \<Rightarrow> Panic msg
      | Return (i, g') \<Rightarrow>
          (case stringWithCharset n cs g' of
             Panic msg \<Rightarrow> Panic msg
           | Return (b, g'') \<Rightarrow> Return (cs ! i # b, g'')))"

definition randString :: "nat \<Rightarrow> Rand \<Rightarrow> (string \<times> Rand) outcome" where
  "randString n g = stringWithCharset n charset g"

text \<open>
  \<open>tempReq\<close> of \<open>CreateState\<close>: a request whose \<open>Cookie\<close> header is the first
  \<open>Set-Cookie\<close> line of the response (\<open>Header.Get\<close> gives the first value of a
  header, the empty string when there is none). Read as a \<open>Cookie\<close> header the line
  yields the cookie it sets; its attributes (\<open>Path\<close>, \<open>Domain\<close>, \<open>Max-Age\<close>) would
  read as cookies of those names and are left out: a state cookie is never named
  like one of them.
\<close>

definition tempReq :: "ResponseWriter \<Rightarrow> Request" where
  "tempReq w =
     \<lparr>Form = [],
      Cookies = (case w_SetCookie w of
                   [] \<Rightarrow> []
                 | c # cs \<Rightarrow> [(cookie_Name c, cookie_Value c)]),
      req_Header = []\<rparr>"

text \<open>\<open>int((20 * time.Minute).Seconds())\<close>.\<close>

definition stateMaxAge :: int where
  "stateMaxAge = 20 * 60"

text \<open>
  \<open>CreateState\<close>. The \<open>StateFunc\<close> \<open>fn\<close> is a parameter, as in the source; \<open>rng\<close> is
  \<open>seededRand\<close> and \<open>new_id\<close> the identifier the store generates on the first save.
  The result carries the store, the response and the random source as the call
  leaves them.
\<close>

definition CreateState ::
  "Request \<Rightarrow> ResponseWriter \<Rightarrow> Store \<Rightarrow> string \<Rightarrow> (Request \<Rightarrow> State) \<Rightarrow> bool \<Rightarrow>
   Rand \<Rightarrow> string \<Rightarrow>
   ((string \<times> go_error option) \<times> Store \<times> ResponseWriter \<times> Rand) outcome" where
  "CreateState r w store sessionDomain fn dynamicOidcStateCookieName rng new_id =
     (case randString 8 rng of
        Panic msg \<Rightarrow> Panic msg
      | Return (nonce, rng') \<Rightarrow>
          (let oidcStateCookieName =
                 (if dynamicOidcStateCookieName then oidcStateCookie @ ''_'' @ nonce
                  else oidcStateCookie);
               s = fn r;
               session0 = NewSession oidcStateCookieName;
               session = session0\<lparr>Options_MaxAge := stateMaxAge, Options_Path := ''/'',
                 Options_Domain := sessionDomain,
                 Values := (Values session0)(sessionValueState \<mapsto> VState s)\<rparr>
           in
             (case session_Save store new_id session w of
                (Some err, store', w') \<Rightarrow>
                  Return (([], Some (Wrap err ''error trying to save session'')),
                    store', w', rng')
              | (None, store', w') \<Rightarrow>
                  (case Cookie (tempReq w') oidcStateCookieName of
                     Inl err \<Rightarrow>
                       Return (([], Some (Wrap err ''error trying to save session'')),
                         store', w', rng')
                   | Inr c_Value \<Rightarrow>
                       Return
                         ((if dynamicOidcStateCookieName then c_Value @ ''.'' @ nonce
                           else c_Value, None),
                          store', w', rng')))))"

section \<open>The session authenticator: \<open>authenticator_session.go\<close>\<close>

text \<open>
  The identity the authenticator answers with: \<open>authenticator.Response\<close> holding a
  \<open>user.DefaultInfo\<close>.
\<close>

record DefaultInfo =
  info_Name :: string
  info_Groups :: "string list"

record Response =
  resp_User :: DefaultInfo

text \<open>
  Modelled from the spec: the keys of a user session's values are constants of
  package \<open>oidc\<close>, which is not in the sources. They are named after the fields the
  spec gives a Session: \<open>userID\<close>, \<open>groups\<close>, \<open>oauth2Tokens\<close>.
\<close>

definition UserSessionUserID :: string where
  "UserSessionUserID = ''userID''"

definition UserSessionGroups :: string where
  "UserSessionGroups = ''groups''"

definition UserSessionOAuth2Tokens :: string where
  "UserSessionOAuth2Tokens = ''oauth2Tokens''"

text \<open>
  Modelled from the spec: \<open>oidc.SessionStore\<close> is not in the sources. Its
  \<open>SessionFromRequest\<close> resolves a session from the request's cookie or header; how
  the identifier is read from them is the parameter \<open>locate\<close>. A request without an
  identifier, or with one that has no record, gets a new session (\<open>isNew\<close>), which is
  not an error.
\<close>

record SessionStore =
  session_records :: "string \<rightharpoonup> StoredSession"
  session_cookie :: string
  locate :: "Request \<Rightarrow> string option"

definition SessionFromRequest :: "SessionStore \<Rightarrow> Request \<Rightarrow> Session \<times> go_error option" where
  "SessionFromRequest store r =
     (case locate store r of
        None \<Rightarrow> (NewSession (session_cookie store), None)
      | Some sid \<Rightarrow>
          (case session_records store sid of
             None \<Rightarrow> (NewSession (session_cookie store), None)
           | Some rec \<Rightarrow>
               ((NewSession (session_cookie store))\<lparr>ID := sid, Values := stored_Values rec,
                   Options_MaxAge := stored_MaxAge rec, IsNew := False\<rparr>, None)))"

text \<open>
  Modelled from the spec: \<open>oidc.SessionManager\<close> is not in the sources. What the
  provider answers to \<open>GetUserInfo\<close> and to a revocation of the tokens are parameters
  (\<open>None\<close> is a nil error). \<open>RevokeSession\<close> is best-effort: it deletes the local
  record of the Session Store, which always succeeds, and attempts the revocation at
  the provider, whose failure is all it can report.
\<close>

record SessionManager =
  GetUserInfo :: "Token \<Rightarrow> go_error option"
  revokeAtProvider :: "Session \<Rightarrow> go_error option"

definition RevokeSession ::
  "SessionManager \<Rightarrow> SessionStore \<Rightarrow> Session \<Rightarrow> go_error option \<times> SessionStore" where
  "RevokeSession m store session =
     (revokeAtProvider m session,
      store\<lparr>session_records := (session_records store)(ID session := None)\<rparr>)"

record sessionAuthenticator =
  strictSessionValidation :: bool
  sm :: SessionManager

text \<open>
  Lines 44 to 68 of \<open>AuthenticateRequest\<close>, the strict validation of a stored session.
  \<open>Some\<close> is what the function returns from inside the block, with the store as the
  block leaves it; \<open>None\<close> means that control falls through to the code after it.
\<close>

definition strictValidation ::
  "sessionAuthenticator \<Rightarrow> SessionStore \<Rightarrow> Session \<Rightarrow>
   (((Response option \<times> bool \<times> go_error option) \<times> SessionStore) option) outcome" where
  "strictValidation sa store session =
     (if strictSessionValidation sa then
        (case Values session UserSessionOAuth2Tokens of
           Some (VToken token) \<Rightarrow>
             (case GetUserInfo (sm sa) token of
                None \<Rightarrow> Return None
              | Some err \<Rightarrow>
                  (case As_RequestError err of
                     None \<Rightarrow>
                       Return (Some ((None, False,
                         Some (Wrap err ''UserInfo request failed unexpectedly'')), store))
                   | Some (StatusCode, body) \<Rightarrow>
                       if StatusCode \<noteq> StatusUnauthorized then
                         Return (Some ((None, False,
                           Some (Wrapf err ''UserInfo request with unexpected code '' StatusCode)),
                           store))
                       else
                         (case RevokeSession (sm sa) store session of
                            (err', store') \<Rightarrow> Return (Some ((None, False, None), store')))))
         | _ \<Rightarrow> Panic ''interface conversion: interface {} is not oauth2.Token'')
      else Return None)"

definition AuthenticateRequest ::
  "sessionAuthenticator \<Rightarrow> SessionStore \<Rightarrow> Request \<Rightarrow>
   ((Response option \<times> bool \<times> go_error option) \<times> SessionStore) outcome" where
  "AuthenticateRequest sa store r =
     (case SessionFromRequest store r of
        (session, Some err) \<Rightarrow>
          Return ((None, False, Some (Wrap err ''couldn't get user session'')), store)
      | (session, None) \<Rightarrow>
          if IsNew session then Return ((None, False, None), store)
          else
            (case strictValidation sa store session of
               Panic msg \<Rightarrow> Panic msg
             | Return (Some early) \<Rightarrow> Return early
             | Return None \<Rightarrow>
                 (let groups = (case Values session UserSessionGroups of
                                  Some (VStrings gs) \<Rightarrow> gs
                                | _ \<Rightarrow> [])
                  in
                    (case Values session UserSessionUserID of
                       Some (VString name) \<Rightarrow>
                         Return ((Some \<lparr>resp_User = \<lparr>info_Name = name, info_Groups = groups\<rparr>\<rparr>,
                           True, None), store)
                     | _ \<Rightarrow> Panic ''interface conversion: interface {} is not string''))))"

section \<open>The bearer ID token authenticator: \<open>authenticators/idtoken.go\<close>\<close>

text \<open>\<open>common.User\<close>; \<open>&common.User{}\<close> is the user whose fields are all empty.\<close>

record User =
  Name :: string
  UID :: string
  Groups :: "string list"
  Extra :: "string \<rightharpoonup> string list"

definition empty_User :: User where
  "empty_User = \<lparr>Name = [], UID = [], Groups = [], Extra = Map.empty\<rparr>"

text \<open>
  \<open>common.GetBearerToken\<close> (\<open>common/util.go\<close>). \<open>strings.TrimSpace\<close> removes the
  white space of Unicode from both ends of a string. A Go string is a sequence of
  bytes in UTF-8, so every white space character is one of the byte sequences of
  \<open>spaceRunes\<close>: the six of ASCII, then U+0085, U+00A0, U+1680, U+2000 to U+200A,
  U+2028, U+2029, U+202F, U+205F and U+3000. \<open>leadingRune\<close> is the length of the one
  a string starts with (0 when it starts with none), and \<open>TrimLeft\<close> removes them from
  the front for as long as there is one.
\<close>

definition spaceRunes :: "string list" where
  "spaceRunes =
     [[CHR 0x09], [CHR 0x0A], [CHR 0x0B], [CHR 0x0C], [CHR 0x0D], [CHR 0x20],
      [CHR 0xC2, CHR 0x85], [CHR 0xC2, CHR 0xA0],
      [CHR 0xE1, CHR 0x9A, CHR 0x80],
      [CHR 0xE2, CHR 0x80, CHR 0x80], [CHR 0xE2, CHR 0x80, CHR 0x81],
      [CHR 0xE2, CHR 0x80, CHR 0x82], [CHR 0xE2, CHR 0x80, CHR 0x83],
      [CHR 0xE2, CHR 0x80, CHR 0x84], [CHR 0xE2, CHR 0x80, CHR 0x85],
      [CHR 0xE2, CHR 0x80, CHR 0x86], [CHR 0xE2, CHR 0x80, CHR 0x87],
      [CHR 0xE2, CHR 0x80, CHR 0x88], [CHR 0xE2, CHR 0x80, CHR 0x89],
      [CHR 0xE2, CHR 0x80, CHR 0x8A],
      [CHR 0xE2, CHR 0x80, CHR 0xA8], [CHR 0xE2, CHR 0x80, CHR 0xA9],
      [CHR 0xE2, CHR 0x80, CHR 0xAF], [CHR 0xE2, CHR 0x81, CHR 0x9F],
      [CHR 0xE3, CHR 0x80, CHR 0x80]]"

definition leadingRune :: "string list \<Rightarrow> string \<Rightarrow> nat" where
  "leadingRune runes s =
     (case find (\<lambda>e. e \<noteq> [] \<and> take (length e) s = e) runes of
        None \<Rightarrow> 0
      | Some e \<Rightarrow> length e)"

function TrimLeft :: "string list \<Rightarrow> string \<Rightarrow> string" where
  "TrimLeft runes s =
     (if leadingRune runes s = 0 then s else TrimLeft runes (drop (leadingRune runes s) s))"
  by pat_completeness auto
termination
proof (relation "measure (\<lambda>(runes, s). length s)")
  show "wf (measure (\<lambda>(runes :: string list, s :: string). length s))"
    by simp
next
  fix runes :: "string list" and s :: string
  assume "leadingRune runes s \<noteq> 0"
  then obtain e where
    f: "find (\<lambda>e. e \<noteq> [] \<and> take (length e) s = e) runes = Some e"
    and l: "leadingRune runes s = length e"
    by (auto simp: leadingRune_def split: option.splits)
  from f have "e \<noteq> []" and "take (length e) s = e"
    by (auto simp: find_Some_iff)
  then have "s \<noteq> []" and "0 < length e"
    by auto
  with l show "((runes, drop (leadingRune runes s) s), (runes, s))
      \<in> measure (\<lambda>(runes, s). length s)"
    by simp
qed

definition TrimSpace :: "string \<Rightarrow> string" where
  "TrimSpace s = rev (TrimLeft (map rev spaceRunes) (rev (TrimLeft spaceRunes s)))"

definition HasPrefix :: "string \<Rightarrow> string \<Rightarrow> bool" where
  "HasPrefix s p = (take (length p) s = p)"

definition TrimPrefix :: "string \<Rightarrow> string \<Rightarrow> string" where
  "TrimPrefix s p = (if HasPrefix s p then drop (length p) s else s)"

definition GetBearerToken :: "string \<Rightarrow> string" where
  "GetBearerToken v =
     (let v' = TrimSpace v in
      if HasPrefix v' ''Bearer '' then TrimPrefix v' ''Bearer '' else v')"

text \<open>
  Package \<open>oidc\<close> and the session manager are not in the sources. The verified token
  is of an opaque type \<open>'t\<close>; \<open>VerifyWithoutClientId\<close> and \<open>oidc.NewClaims\<close> are
  parameters, and a claims object is what its two methods return: \<open>claims.UserID()\<close>
  (an error when the token has no userID claim) and \<open>claims.Groups()\<close>.
\<close>

record Claims =
  claims_UserID :: "go_error + string"
  claims_Groups :: "string list"

record 't IDTokenAuthenticator =
  Header :: string
  UserIDClaim :: string
  GroupsClaim :: string
  VerifyWithoutClientId :: "string \<Rightarrow> go_error + 't"
  NewClaims :: "'t \<Rightarrow> string \<Rightarrow> string \<Rightarrow> go_error + Claims"
  TokenHeader :: string
  TokenScheme :: string

definition Authenticate ::
  "'t IDTokenAuthenticator \<Rightarrow> ResponseWriter \<Rightarrow> Request \<Rightarrow>
   (User option \<times> bool \<times> go_error option) \<times> ResponseWriter" where
  "Authenticate s w r =
     (let bearer = GetBearerToken (Header_Get r (Header s)) in
      if length bearer = 0 then ((None, False, None), w)
      else
        (case VerifyWithoutClientId s bearer of
           Inl err \<Rightarrow> ((None, False, None), w)
         | Inr token \<Rightarrow>
             (case NewClaims s token (UserIDClaim s) (GroupsClaim s) of
                Inl err \<Rightarrow> ((None, False, None), w)
              | Inr claims \<Rightarrow>
                  (let idHeader = (if TokenScheme s \<noteq> [] then TokenScheme s @ '' '' @ bearer
                                   else bearer);
                       w' = Header_Set w (TokenHeader s) idHeader
                   in
                     (case claims_UserID claims of
                        Inl err \<Rightarrow> ((Some empty_User, True, None), w')
                      | Inr userID \<Rightarrow>
                          (let groups = claims_Groups claims;
                               extra = [''auth-method'' \<mapsto> [''header'']];
                               user = \<lparr>Name = userID, UID = [], Groups = groups, Extra = extra\<rparr>
                           in ((Some user, True, None), w')))))))"

section \<open>Sample environments\<close>

text \<open>
  Concrete values for the parameters of the model, used where a theorem is run on an
  explicit input: a function that ignores its argument, a session store that reads
  the identifier from a cookie, and an \<open>oidc.NewClaims\<close> that yields given claims.
\<close>

definition constantly :: "'b \<Rightarrow> 'a \<Rightarrow> 'b" where
  "constantly c x = c"

definition cookie_locate :: "string \<Rightarrow> Request \<Rightarrow> string option" where
  "cookie_locate name r = map_of (Cookies r) name"

definition claims_of_token :: "Claims \<Rightarrow> 't \<Rightarrow> string \<Rightarrow> string \<Rightarrow> go_error + Claims" where
  "claims_of_token c token userIDClaim groupsClaim = Inr c"

text \<open>
  A session store with one user session, written before groups were captured; a
  request that presents it; a session manager whose provider gives one fixed answer
  to \<open>GetUserInfo\<close>; and a bearer token authenticator that accepts every token and
  finds the given claims in it, with a request that carries a bearer token.
\<close>

definition sample_SessionStore :: SessionStore where
  "sample_SessionStore =
     \<lparr>session_records = [''S1'' \<mapsto>
        \<lparr>stored_Values = [UserSessionUserID \<mapsto> VString ''alice'',
            UserSessionOAuth2Tokens \<mapsto> VToken \<lparr>AccessToken = ''at''\<rparr>],
         stored_MaxAge = 3600\<rparr>],
      session_cookie = ''authservice_session'',
      locate = cookie_locate ''authservice_session''\<rparr>"

definition sample_session_request :: Request where
  "sample_session_request =
     \<lparr>Form = [], Cookies = [(''authservice_session'', ''S1'')], req_Header = []\<rparr>"

definition provider :: "go_error option \<Rightarrow> SessionManager" where
  "provider answer = \<lparr>GetUserInfo = constantly answer, revokeAtProvider = constantly None\<rparr>"

definition sample_IDTokenAuthenticator :: "Claims \<Rightarrow> string IDTokenAuthenticator" where
  "sample_IDTokenAuthenticator c =
     \<lparr>Header = ''Authorization'', UserIDClaim = ''email'', GroupsClaim = ''groups'',
      VerifyWithoutClientId = Inr, NewClaims = claims_of_token c,
      TokenHeader = ''X-Auth-Token'', TokenScheme = ''Bearer''\<rparr>"

definition sample_bearer_request :: Request where
  "sample_bearer_request =
     \<lparr>Form = [], Cookies = [], req_Header = [(''Authorization'', ''Bearer tok'')]\<rparr>"

section \<open>Properties of the State Codec\<close>

lemma Split_without_sep: "sep \<notin> set s \<Longrightarrow> Split s sep = [s]"
  by (induction s) auto

text \<open>
  What a successful \<open>VerifyState\<close> says about its inputs: the parameter is there and
  decodes, the cookie of the decoded name carries the decoded identifier, the store
  holds a record under it, and the store that comes back lacks exactly that record.
\<close>

lemma VerifyState_success_cases:
  assumes "VerifyState r store dyn = Return ((Some st, None), store')"
  obtains stateValue nonce name and rec :: StoredSession where
    "FormValue r ''state'' \<noteq> []"
    "stateParamParts dyn (FormValue r ''state'') = Return (stateValue, nonce, name)"
    "Cookie r name = Inr stateValue"
    "records store stateValue = Some rec"
    "stored_Values rec sessionValueState = Some (VState st)"
    "store' = store\<lparr>records := (records store)(stateValue := None)\<rparr>"
  using assms
  by (auto simp: VerifyState_def Let_def store_Get_def revokeSession_def NewSession_def
      split: if_splits outcome.splits sum.splits option.splits session_value.splits prod.splits)

text \<open>
  Claim C1 (state single-use). When \<open>VerifyState\<close> succeeds on a request, the same
  request (identical state parameter, identical cookies) verified again against the
  store that the first call left behind fails with \<open>Expired\<close>: the record is no
  longer found. So a state value verifies at most once.
\<close>

theorem VerifyState_single_use:
  assumes "VerifyState r store dyn = Return ((Some st, None), store')"
  shows "VerifyState r store' dyn = Return ((None, Some Expired), store')"
proof -
  from assms obtain stateValue nonce name where
    p: "FormValue r ''state'' \<noteq> []"
    and d: "stateParamParts dyn (FormValue r ''state'') = Return (stateValue, nonce, name)"
    and c: "Cookie r name = Inr stateValue"
    and s: "store' = store\<lparr>records := (records store)(stateValue := None)\<rparr>"
    by (rule VerifyState_success_cases)
  have "store_Get store' r name = (NewSession name, None)"
    by (simp add: store_Get_def c s)
  then show ?thesis
    by (simp add: VerifyState_def p d c NewSession_def)
qed

theorem VerifyState_single_use_witness:
  "VerifyState
     \<lparr>Form = [(''state'', ''SID.abcdefgh'')],
      Cookies = [(''oidc_state_csrf_abcdefgh'', ''SID'')], req_Header = []\<rparr>
     \<lparr>records = [''SID'' \<mapsto>
        \<lparr>stored_Values = [''state'' \<mapsto> VState \<lparr>FirstVisitedURL = ''/app''\<rparr>],
         stored_MaxAge = 1200\<rparr>]\<rparr>
     True
   = Return ((Some \<lparr>FirstVisitedURL = ''/app''\<rparr>, None), \<lparr>records = Map.empty\<rparr>) \<and>
   VerifyState
     \<lparr>Form = [(''state'', ''SID.abcdefgh'')],
      Cookies = [(''oidc_state_csrf_abcdefgh'', ''SID'')], req_Header = []\<rparr>
     \<lparr>records = Map.empty\<rparr>
     True
   = Return ((None, Some Expired), \<lparr>records = Map.empty\<rparr>)"
proof -
  have first: "VerifyState
     \<lparr>Form = [(''state'', ''SID.abcdefgh'')],
      Cookies = [(''oidc_state_csrf_abcdefgh'', ''SID'')], req_Header = []\<rparr>
     \<lparr>records = [''SID'' \<mapsto>
        \<lparr>stored_Values = [''state'' \<mapsto> VState \<lparr>FirstVisitedURL = ''/app''\<rparr>],
         stored_MaxAge = 1200\<rparr>]\<rparr>
     True
   = Return ((Some \<lparr>FirstVisitedURL = ''/app''\<rparr>, None), \<lparr>records = Map.empty\<rparr>)"
    by (simp add: VerifyState_def FormValue_def stateParamParts_def oidcStateCookie_def
        Cookie_def store_Get_def NewSession_def sessionValueState_def revokeSession_def)
  from VerifyState_single_use [OF first] first show ?thesis
    by simp
qed

text \<open>
  Claim C2 (CSRF mismatch detection). Take a request with a state parameter that
  decodes to the session identifier \<open>B\<close> and to the cookie name \<open>name\<close>, and whose
  cookie of that name carries \<open>A\<close>. If \<open>A\<close> differs from \<open>B\<close>, \<open>VerifyState\<close> returns
  no State and the \<open>Mismatch\<close> error, whatever the store holds, and leaves the store
  as it was.
\<close>

theorem VerifyState_mismatch:
  assumes "FormValue r ''state'' \<noteq> []"
    and "stateParamParts dyn (FormValue r ''state'') = Return (B, nonce, name)"
    and "Cookie r name = Inr A"
    and "A \<noteq> B"
  shows "VerifyState r store dyn = Return ((None, Some Mismatch), store)"
  using assms by (simp add: VerifyState_def)

theorem VerifyState_mismatch_witness:
  "VerifyState
     \<lparr>Form = [(''state'', ''B.abcdefgh'')],
      Cookies = [(''oidc_state_csrf_abcdefgh'', ''A'')], req_Header = []\<rparr>
     \<lparr>records = [''B'' \<mapsto>
        \<lparr>stored_Values = [''state'' \<mapsto> VState \<lparr>FirstVisitedURL = ''/app''\<rparr>],
         stored_MaxAge = 1200\<rparr>]\<rparr>
     True
   = Return ((None, Some Mismatch),
       \<lparr>records = [''B'' \<mapsto>
        \<lparr>stored_Values = [''state'' \<mapsto> VState \<lparr>FirstVisitedURL = ''/app''\<rparr>],
         stored_MaxAge = 1200\<rparr>]\<rparr>)"
proof -
  let ?r = "\<lparr>Form = [(''state'', ''B.abcdefgh'')],
      Cookies = [(''oidc_state_csrf_abcdefgh'', ''A'')], req_Header = []\<rparr>"
  have h1: "FormValue ?r ''state'' \<noteq> []"
    by (simp add: FormValue_def)
  have h2: "stateParamParts True (FormValue ?r ''state'') =
              Return (''B'', ''abcdefgh'', ''oidc_state_csrf_abcdefgh'')"
    by (simp add: FormValue_def stateParamParts_def oidcStateCookie_def)
  have h3: "Cookie ?r ''oidc_state_csrf_abcdefgh'' = Inr ''A''"
    by (simp add: Cookie_def)
  have h4: "''A'' \<noteq> ''B''"
    by simp
  show ?thesis
    by (rule VerifyState_mismatch [OF h1 h2 h3 h4])
qed

text \<open>
  Claim C10 (a panic under dynamic cookie naming). With dynamic cookie naming on,
  every non-empty state parameter that contains no dot makes \<open>VerifyState\<close> panic:
  the split has a single part and \<open>stateParamParts[1]\<close> is out of range. No error
  value is returned, so \<open>VerifyState\<close> is not total on state parameters.
\<close>

theorem VerifyState_dynamic_panic:
  assumes "FormValue r ''state'' \<noteq> []"
    and "CHR ''.'' \<notin> set (FormValue r ''state'')"
  shows "length (Split (FormValue r ''state'') (CHR ''.'')) < 2 \<and>
         VerifyState r store True = Panic ''index out of range [1] with length 1''"
  using assms by (simp add: VerifyState_def stateParamParts_def Split_without_sep)

theorem VerifyState_dynamic_panic_witness:
  "FormValue \<lparr>Form = [(''state'', ''abc'')], Cookies = [], req_Header = []\<rparr> ''state'' = ''abc'' \<and>
   length (Split ''abc'' (CHR ''.'')) < 2 \<and>
   VerifyState \<lparr>Form = [(''state'', ''abc'')], Cookies = [], req_Header = []\<rparr>
     \<lparr>records = Map.empty\<rparr> True
   = Panic ''index out of range [1] with length 1''"
proof -
  let ?r = "\<lparr>Form = [(''state'', ''abc'')], Cookies = [], req_Header = []\<rparr>"
  have v: "FormValue ?r ''state'' = ''abc''"
    by (simp add: FormValue_def)
  have h1: "FormValue ?r ''state'' \<noteq> []"
    by (simp add: v)
  have h2: "CHR ''.'' \<notin> set (FormValue ?r ''state'')"
    by (simp add: v)
  from VerifyState_dynamic_panic [OF h1 h2, of "\<lparr>records = Map.empty\<rparr>"] v show ?thesis
    by simp
qed

lemma VerifyState_failure_cases:
  assumes "VerifyState r store dyn = Return ((None, Some e), store')"
    and "e = MissingParameter \<or> e = MissingCookie name \<or> e = Mismatch \<or> e = Expired"
  shows "store' = store"
  using assms
  by (auto simp: VerifyState_def Let_def store_Get_def revokeSession_def NewSession_def
        MissingParameter_def MissingCookie_def Mismatch_def Expired_def
      split: if_splits outcome.splits sum.splits option.splits session_value.splits prod.splits)

text \<open>
  Claim C4 (state deletion regardless of outcome), as stated, fails. A call that
  fails the CSRF check returns before the store is touched: the record of the state
  value is still there afterwards, and the same state value then verifies with the
  right cookie.
\<close>

theorem VerifyState_failure_keeps_record:
  "VerifyState
     \<lparr>Form = [(''state'', ''B'')], Cookies = [(''oidc_state_csrf'', ''A'')], req_Header = []\<rparr>
     \<lparr>records = [''B'' \<mapsto>
        \<lparr>stored_Values = [''state'' \<mapsto> VState \<lparr>FirstVisitedURL = ''/app''\<rparr>],
         stored_MaxAge = 1200\<rparr>]\<rparr>
     False
   = Return ((None, Some Mismatch),
       \<lparr>records = [''B'' \<mapsto>
        \<lparr>stored_Values = [''state'' \<mapsto> VState \<lparr>FirstVisitedURL = ''/app''\<rparr>],
         stored_MaxAge = 1200\<rparr>]\<rparr>) \<and>
   VerifyState
     \<lparr>Form = [(''state'', ''B'')], Cookies = [(''oidc_state_csrf'', ''B'')], req_Header = []\<rparr>
     \<lparr>records = [''B'' \<mapsto>
        \<lparr>stored_Values = [''state'' \<mapsto> VState \<lparr>FirstVisitedURL = ''/app''\<rparr>],
         stored_MaxAge = 1200\<rparr>]\<rparr>
     False
   = Return ((Some \<lparr>FirstVisitedURL = ''/app''\<rparr>, None), \<lparr>records = Map.empty\<rparr>)"
  by (simp add: VerifyState_def FormValue_def stateParamParts_def oidcStateCookie_def
        Cookie_def store_Get_def NewSession_def sessionValueState_def revokeSession_def)

text \<open>
  Claim C4, amended. The record is deleted on the successful path only. When
  \<open>VerifyState\<close> succeeds, the store it leaves is the one \<open>revokeSession\<close> returns for
  the session just read: the store as it was, without the record of the state value,
  which was there before. When \<open>VerifyState\<close> fails with \<open>MissingParameter\<close>,
  \<open>MissingCookie\<close>, \<open>Mismatch\<close> or \<open>Expired\<close>, the store is unchanged.
\<close>

theorem VerifyState_deletes_on_success:
  "(VerifyState r store dyn = Return ((Some st, None), store') \<longrightarrow>
      (\<exists>stateValue nonce name.
         stateParamParts dyn (FormValue r ''state'') = Return (stateValue, nonce, name) \<and>
         records store stateValue \<noteq> None \<and>
         store' = snd (revokeSession store (fst (store_Get store r name))) \<and>
         store' = store\<lparr>records := (records store)(stateValue := None)\<rparr> \<and>
         records store' stateValue = None)) \<and>
   (VerifyState r store dyn = Return ((None, Some e), store') \<longrightarrow>
      e = MissingParameter \<or> e = MissingCookie name \<or> e = Mismatch \<or> e = Expired \<longrightarrow>
      store' = store)"
proof (intro conjI impI)
  assume ok: "VerifyState r store dyn = Return ((Some st, None), store')"
  then obtain stateValue nonce name and rec :: StoredSession where
    d: "stateParamParts dyn (FormValue r ''state'') = Return (stateValue, nonce, name)"
    and c: "Cookie r name = Inr stateValue"
    and g: "records store stateValue = Some rec"
    and s: "store' = store\<lparr>records := (records store)(stateValue := None)\<rparr>"
    by (rule VerifyState_success_cases)
  have "store' = snd (revokeSession store (fst (store_Get store r name)))"
    by (simp add: store_Get_def c g s revokeSession_def)
  with d g s show "\<exists>stateValue nonce name.
         stateParamParts dyn (FormValue r ''state'') = Return (stateValue, nonce, name) \<and>
         records store stateValue \<noteq> None \<and>
         store' = snd (revokeSession store (fst (store_Get store r name))) \<and>
         store' = store\<lparr>records := (records store)(stateValue := None)\<rparr> \<and>
         records store' stateValue = None"
    by auto
next
  assume "VerifyState r store dyn = Return ((None, Some e), store')"
    and "e = MissingParameter \<or> e = MissingCookie name \<or> e = Mismatch \<or> e = Expired"
  then show "store' = store"
    by (rule VerifyState_failure_cases)
qed

theorem VerifyState_deletes_on_success_witness:
  "records \<lparr>records = [''SID'' \<mapsto>
        \<lparr>stored_Values = [''state'' \<mapsto> VState \<lparr>FirstVisitedURL = ''/app''\<rparr>],
         stored_MaxAge = 1200\<rparr>]\<rparr> ''SID'' \<noteq> None \<and>
   VerifyState
     \<lparr>Form = [(''state'', ''SID'')], Cookies = [(''oidc_state_csrf'', ''SID'')], req_Header = []\<rparr>
     \<lparr>records = [''SID'' \<mapsto>
        \<lparr>stored_Values = [''state'' \<mapsto> VState \<lparr>FirstVisitedURL = ''/app''\<rparr>],
         stored_MaxAge = 1200\<rparr>]\<rparr>
     False
   = Return ((Some \<lparr>FirstVisitedURL = ''/app''\<rparr>, None), \<lparr>records = Map.empty\<rparr>) \<and>
   records \<lparr>records = Map.empty\<rparr> ''SID'' = None \<and>
   VerifyState
     \<lparr>Form = [(''state'', ''SID'')], Cookies = [], req_Header = []\<rparr>
     \<lparr>records = [''SID'' \<mapsto>
        \<lparr>stored_Values = [''state'' \<mapsto> VState \<lparr>FirstVisitedURL = ''/app''\<rparr>],
         stored_MaxAge = 1200\<rparr>]\<rparr>
     False
   = Return ((None, Some (MissingCookie ''oidc_state_csrf'')),
       \<lparr>records = [''SID'' \<mapsto>
        \<lparr>stored_Values = [''state'' \<mapsto> VState \<lparr>FirstVisitedURL = ''/app''\<rparr>],
         stored_MaxAge = 1200\<rparr>]\<rparr>)"
proof -
  let ?store = "\<lparr>records = [''SID'' \<mapsto>
        \<lparr>stored_Values = [''state'' \<mapsto> VState \<lparr>FirstVisitedURL = ''/app''\<rparr>],
         stored_MaxAge = 1200\<rparr>]\<rparr>"
  let ?r = "\<lparr>Form = [(''state'', ''SID'')], Cookies = [(''oidc_state_csrf'', ''SID'')],
             req_Header = []\<rparr>"
  let ?r' = "\<lparr>Form = [(''state'', ''SID'')], Cookies = [], req_Header = []\<rparr>"
  have ok: "VerifyState ?r ?store False =
      Return ((Some \<lparr>FirstVisitedURL = ''/app''\<rparr>, None), \<lparr>records = Map.empty\<rparr>)"
    by (simp add: VerifyState_def FormValue_def stateParamParts_def oidcStateCookie_def
        Cookie_def store_Get_def NewSession_def sessionValueState_def revokeSession_def)
  have failed: "VerifyState ?r' ?store False =
      Return ((None, Some (MissingCookie ''oidc_state_csrf'')), ?store)"
    by (simp add: VerifyState_def FormValue_def stateParamParts_def oidcStateCookie_def
        Cookie_def)
  from VerifyState_deletes_on_success
    [of ?r ?store False "\<lparr>FirstVisitedURL = ''/app''\<rparr>" "\<lparr>records = Map.empty\<rparr>"]
    VerifyState_deletes_on_success
    [of ?r' ?store False _ ?store "MissingCookie ''oidc_state_csrf''" "''oidc_state_csrf''"]
    ok failed
  show ?thesis
    by simp
qed

text \<open>
  Claim C5 (state-error indistinguishability), as stated, fails. The error that
  \<open>VerifyState\<close> returns for a missing cookie and the one it returns for a mismatch
  are different values with different messages: the caller can tell the two causes
  apart.
\<close>

theorem VerifyState_errors_distinguishable:
  "VerifyState
     \<lparr>Form = [(''state'', ''B'')], Cookies = [], req_Header = []\<rparr>
     \<lparr>records = Map.empty\<rparr> False
   = Return ((None, Some (MissingCookie ''oidc_state_csrf'')), \<lparr>records = Map.empty\<rparr>) \<and>
   VerifyState
     \<lparr>Form = [(''state'', ''B'')], Cookies = [(''oidc_state_csrf'', ''A'')], req_Header = []\<rparr>
     \<lparr>records = Map.empty\<rparr> False
   = Return ((None, Some Mismatch), \<lparr>records = Map.empty\<rparr>) \<and>
   MissingCookie ''oidc_state_csrf'' \<noteq> Mismatch"
  by (simp add: VerifyState_def FormValue_def stateParamParts_def oidcStateCookie_def
        Cookie_def MissingCookie_def Mismatch_def)

text \<open>
  Claim C5, amended. A run that fails because the expected cookie is absent and a
  run that fails because cookie and parameter differ agree in everything but the
  error value: neither returns a State, both return an error, and both leave the
  store untouched. The error values differ: \<open>MissingCookie\<close> carries the name of the
  expected cookie, \<open>Mismatch\<close> is a fixed message. A generic signal is left to the
  caller.
\<close>

theorem VerifyState_csrf_failures:
  assumes "FormValue r1 ''state'' \<noteq> []"
    and "stateParamParts dyn1 (FormValue r1 ''state'') = Return (v1, nonce1, name1)"
    and "Cookie r1 name1 = Inl err"
    and "FormValue r2 ''state'' \<noteq> []"
    and "stateParamParts dyn2 (FormValue r2 ''state'') = Return (v2, nonce2, name2)"
    and "Cookie r2 name2 = Inr c2"
    and "c2 \<noteq> v2"
  shows "VerifyState r1 store1 dyn1 = Return ((None, Some (MissingCookie name1)), store1) \<and>
         VerifyState r2 store2 dyn2 = Return ((None, Some Mismatch), store2) \<and>
         MissingCookie name1 \<noteq> Mismatch"
  using assms by (simp add: VerifyState_def MissingCookie_def Mismatch_def)

theorem VerifyState_csrf_failures_witness:
  "VerifyState
     \<lparr>Form = [(''state'', ''B.abcdefgh'')], Cookies = [], req_Header = []\<rparr>
     \<lparr>records = Map.empty\<rparr> True
   = Return ((None, Some (MissingCookie ''oidc_state_csrf_abcdefgh'')), \<lparr>records = Map.empty\<rparr>) \<and>
   VerifyState
     \<lparr>Form = [(''state'', ''B'')], Cookies = [(''oidc_state_csrf'', ''A'')], req_Header = []\<rparr>
     \<lparr>records = Map.empty\<rparr> False
   = Return ((None, Some Mismatch), \<lparr>records = Map.empty\<rparr>)"
proof -
  let ?r1 = "\<lparr>Form = [(''state'', ''B.abcdefgh'')], Cookies = [], req_Header = []\<rparr>"
  let ?r2 = "\<lparr>Form = [(''state'', ''B'')], Cookies = [(''oidc_state_csrf'', ''A'')],
              req_Header = []\<rparr>"
  have a1: "FormValue ?r1 ''state'' \<noteq> []"
    by (simp add: FormValue_def)
  have a2: "stateParamParts True (FormValue ?r1 ''state'') =
              Return (''B'', ''abcdefgh'', ''oidc_state_csrf_abcdefgh'')"
    by (simp add: FormValue_def stateParamParts_def oidcStateCookie_def)
  have a3: "Cookie ?r1 ''oidc_state_csrf_abcdefgh'' = Inl ErrNoCookie"
    by (simp add: Cookie_def)
  have b1: "FormValue ?r2 ''state'' \<noteq> []"
    by (simp add: FormValue_def)
  have b2: "stateParamParts False (FormValue ?r2 ''state'') = Return (''B'', [], ''oidc_state_csrf'')"
    by (simp add: FormValue_def stateParamParts_def oidcStateCookie_def)
  have b3: "Cookie ?r2 ''oidc_state_csrf'' = Inr ''A''"
    by (simp add: Cookie_def)
  have b4: "''A'' \<noteq> ''B''"
    by simp
  from VerifyState_csrf_failures [OF a1 a2 a3 b1 b2 b3 b4] show ?thesis
    by simp
qed

lemma stringWithCharset_Return:
  "cs \<noteq> [] \<Longrightarrow>
   \<exists>b g'. stringWithCharset n cs g = Return (b, g') \<and> length b = n \<and> set b \<subseteq> set cs"
proof (induction n arbitrary: g)
  case 0
  then show ?case by simp
next
  case (Suc n)
  let ?g = "g\<lparr>drawn := drawn g + 1\<rparr>"
  from Suc obtain b g' where
    "stringWithCharset n cs ?g = Return (b, g')" "length b = n" "set b \<subseteq> set cs"
    by blast
  with Suc.prems show ?case
    by (simp add: Intn_def)
qed

text \<open>\<open>randString\<close> never panics: it returns a string of the length asked for, over \<open>charset\<close>.\<close>

lemma randString_Return:
  "\<exists>b g'. randString n g = Return (b, g') \<and> length b = n \<and> set b \<subseteq> set charset"
  unfolding randString_def by (rule stringWithCharset_Return) (simp add: charset_def)

text \<open>
  What every successful \<open>CreateState\<close> leaves behind. Let \<open>nonce\<close> be what
  \<open>randString(8)\<close> draws. The nonce has 8 characters of \<open>charset\<close>; the store holds
  the State under the new session identifier with a time to live of 20 minutes (1200
  seconds); the cookie added to the response carries that identifier and lives 20
  minutes, and its name is \<open>oidc_state_csrf\<close>, followed by \<open>_\<close> and the nonce when
  dynamic naming is on. The state value returned is the value of the cookie of that
  name that the code reads back from the first \<open>Set-Cookie\<close> line of the response,
  followed by \<open>.\<close> and the nonce exactly when dynamic naming is on. Only on a
  response that carried no \<open>Set-Cookie\<close> line before the call is that the cookie just
  added, and its value the new session identifier.
\<close>

lemma CreateState_success:
  assumes nonce: "randString 8 rng = Return (nonce, rng1)"
    and ok: "CreateState r w store sessionDomain fn dyn rng new_id =
               Return ((stateValue, None), store', w', rng')"
  shows "length nonce = 8 \<and> set nonce \<subseteq> set charset \<and>
    records store' new_id =
      Some \<lparr>stored_Values = [sessionValueState \<mapsto> VState (fn r)], stored_MaxAge = 20 * 60\<rparr> \<and>
    w_SetCookie w' = w_SetCookie w @
      [\<lparr>cookie_Name = (if dyn then oidcStateCookie @ ''_'' @ nonce else oidcStateCookie),
        cookie_Value = new_id, cookie_Path = ''/'', cookie_Domain = sessionDomain,
        cookie_MaxAge = 20 * 60\<rparr>] \<and>
    cookie_Name (hd (w_SetCookie w')) =
      (if dyn then oidcStateCookie @ ''_'' @ nonce else oidcStateCookie) \<and>
    stateValue = (if dyn then cookie_Value (hd (w_SetCookie w')) @ ''.'' @ nonce
                  else cookie_Value (hd (w_SetCookie w'))) \<and>
    (w_SetCookie w = [] \<longrightarrow> cookie_Value (hd (w_SetCookie w')) = new_id)"
proof -
  from randString_Return [of 8 rng] nonce
  have len: "length nonce = 8" and chars: "set nonce \<subseteq> set charset"
    by auto
  from ok nonce have rest:
    "records store' new_id =
      Some \<lparr>stored_Values = [sessionValueState \<mapsto> VState (fn r)], stored_MaxAge = 20 * 60\<rparr> \<and>
    w_SetCookie w' = w_SetCookie w @
      [\<lparr>cookie_Name = (if dyn then oidcStateCookie @ ''_'' @ nonce else oidcStateCookie),
        cookie_Value = new_id, cookie_Path = ''/'', cookie_Domain = sessionDomain,
        cookie_MaxAge = 20 * 60\<rparr>] \<and>
    cookie_Name (hd (w_SetCookie w')) =
      (if dyn then oidcStateCookie @ ''_'' @ nonce else oidcStateCookie) \<and>
    stateValue = (if dyn then cookie_Value (hd (w_SetCookie w')) @ ''.'' @ nonce
                  else cookie_Value (hd (w_SetCookie w'))) \<and>
    (w_SetCookie w = [] \<longrightarrow> cookie_Value (hd (w_SetCookie w')) = new_id)"
    by (cases "w_SetCookie w")
       (auto simp: CreateState_def Let_def session_Save_def NewSession_def http_SetCookie_def
          tempReq_def Cookie_def stateMaxAge_def
          split: if_splits sum.splits option.splits)
  with len chars show ?thesis by blast
qed

lemma randString_sample:
  "randString 8 \<lparr>draws = id, drawn = 0\<rparr> = Return (''abcdefgh'', \<lparr>draws = id, drawn = 8\<rparr>)"
proof -
  have n: "(8::nat) = Suc (Suc (Suc (Suc (Suc (Suc (Suc (Suc 0)))))))"
    by simp
  have "stringWithCharset (Suc (Suc (Suc (Suc (Suc (Suc (Suc (Suc 0)))))))) charset
          \<lparr>draws = id, drawn = 0\<rparr> = Return (''abcdefgh'', \<lparr>draws = id, drawn = 8\<rparr>)"
    by (simp add: Intn_def charset_def)
  then show ?thesis
    unfolding randString_def n .
qed

lemma CreateState_fresh_response:
  "CreateState \<lparr>Form = [], Cookies = [], req_Header = []\<rparr>
     \<lparr>w_Header = Map.empty, w_SetCookie = []\<rparr> \<lparr>records = Map.empty\<rparr> ''example.com''
     (constantly \<lparr>FirstVisitedURL = ''/app''\<rparr>) True \<lparr>draws = id, drawn = 0\<rparr> ''SID''
   = Return ((''SID.abcdefgh'', None),
       \<lparr>records = [''SID'' \<mapsto>
          \<lparr>stored_Values = [''state'' \<mapsto> VState \<lparr>FirstVisitedURL = ''/app''\<rparr>],
           stored_MaxAge = 1200\<rparr>]\<rparr>,
       \<lparr>w_Header = Map.empty, w_SetCookie =
          [\<lparr>cookie_Name = ''oidc_state_csrf_abcdefgh'', cookie_Value = ''SID'',
            cookie_Path = ''/'', cookie_Domain = ''example.com'', cookie_MaxAge = 1200\<rparr>]\<rparr>,
       \<lparr>draws = id, drawn = 8\<rparr>) \<and>
   length ''abcdefgh'' = 8"
proof -
  have ok: "CreateState \<lparr>Form = [], Cookies = [], req_Header = []\<rparr>
     \<lparr>w_Header = Map.empty, w_SetCookie = []\<rparr> \<lparr>records = Map.empty\<rparr> ''example.com''
     (constantly \<lparr>FirstVisitedURL = ''/app''\<rparr>) True \<lparr>draws = id, drawn = 0\<rparr> ''SID''
   = Return ((''SID.abcdefgh'', None),
       \<lparr>records = [''SID'' \<mapsto>
          \<lparr>stored_Values = [''state'' \<mapsto> VState \<lparr>FirstVisitedURL = ''/app''\<rparr>],
           stored_MaxAge = 1200\<rparr>]\<rparr>,
       \<lparr>w_Header = Map.empty, w_SetCookie =
          [\<lparr>cookie_Name = ''oidc_state_csrf_abcdefgh'', cookie_Value = ''SID'',
            cookie_Path = ''/'', cookie_Domain = ''example.com'', cookie_MaxAge = 1200\<rparr>]\<rparr>,
       \<lparr>draws = id, drawn = 8\<rparr>)"
    by (simp add: CreateState_def randString_sample Let_def oidcStateCookie_def NewSession_def
        stateMaxAge_def sessionValueState_def constantly_def session_Save_def
        http_SetCookie_def tempReq_def Cookie_def)
  from CreateState_success [OF randString_sample ok] ok show ?thesis
    by simp
qed

text \<open>
  Claim C6 (postcondition of \<open>CreateState\<close>) fails on the code for the state value
  returned. \<open>CreateState\<close> is documented to return the session key of the cookie it
  sets, and reads it back from the first \<open>Set-Cookie\<close> line of the response. On a
  response that already carries a \<open>Set-Cookie\<close> line for \<open>oidc_state_csrf\<close> with the
  value \<open>OLD\<close>, a call without dynamic naming succeeds, saves the State under the new
  identifier \<open>SID\<close> with a time to live of 1200 seconds, adds the cookie
  \<open>oidc_state_csrf=SID\<close>, and returns \<open>OLD\<close>.
\<close>

theorem CreateState_stale_cookie:
  "CreateState \<lparr>Form = [], Cookies = [], req_Header = []\<rparr>
     \<lparr>w_Header = Map.empty, w_SetCookie =
        [\<lparr>cookie_Name = ''oidc_state_csrf'', cookie_Value = ''OLD'',
          cookie_Path = ''/'', cookie_Domain = ''example.com'', cookie_MaxAge = 1200\<rparr>]\<rparr>
     \<lparr>records = Map.empty\<rparr> ''example.com''
     (constantly \<lparr>FirstVisitedURL = ''/app''\<rparr>) False \<lparr>draws = id, drawn = 0\<rparr> ''SID''
   = Return ((''OLD'', None),
       \<lparr>records = [''SID'' \<mapsto>
          \<lparr>stored_Values = [''state'' \<mapsto> VState \<lparr>FirstVisitedURL = ''/app''\<rparr>],
           stored_MaxAge = 1200\<rparr>]\<rparr>,
       \<lparr>w_Header = Map.empty, w_SetCookie =
          [\<lparr>cookie_Name = ''oidc_state_csrf'', cookie_Value = ''OLD'',
            cookie_Path = ''/'', cookie_Domain = ''example.com'', cookie_MaxAge = 1200\<rparr>,
           \<lparr>cookie_Name = ''oidc_state_csrf'', cookie_Value = ''SID'',
            cookie_Path = ''/'', cookie_Domain = ''example.com'', cookie_MaxAge = 1200\<rparr>]\<rparr>,
       \<lparr>draws = id, drawn = 8\<rparr>) \<and>
   ''OLD'' \<noteq> ''SID''"
  by (simp add: CreateState_def randString_sample Let_def oidcStateCookie_def NewSession_def
      stateMaxAge_def sessionValueState_def constantly_def session_Save_def
      http_SetCookie_def tempReq_def Cookie_def)

section \<open>Properties of the session authenticator\<close>

lemma SessionFromRequest_stored:
  assumes "locate store r = Some sid" and "session_records store sid = Some rec"
  shows "SessionFromRequest store r =
    ((NewSession (session_cookie store))\<lparr>ID := sid, Values := stored_Values rec,
        Options_MaxAge := stored_MaxAge rec, IsNew := False\<rparr>, None)"
  using assms by (simp add: SessionFromRequest_def)

lemma sample_session_located:
  "locate sample_SessionStore sample_session_request = Some ''S1''"
  by (simp add: sample_SessionStore_def sample_session_request_def cookie_locate_def)

lemma sample_session_record:
  "session_records sample_SessionStore ''S1'' =
     Some \<lparr>stored_Values = [UserSessionUserID \<mapsto> VString ''alice'',
             UserSessionOAuth2Tokens \<mapsto> VToken \<lparr>AccessToken = ''at''\<rparr>],
           stored_MaxAge = 3600\<rparr>"
  by (simp add: sample_SessionStore_def)

text \<open>
  Claim C3 (strict session revalidation), as stated, fails. A definitive error is one
  returned with handled set (no other authenticator is to be tried). When the provider
  answers \<open>GetUserInfo\<close> with status 500, \<open>AuthenticateRequest\<close> returns the wrapped
  error with handled unset.
\<close>

theorem AuthenticateRequest_error_not_handled:
  "AuthenticateRequest
     \<lparr>strictSessionValidation = True, sm = provider (Some (RequestError 500 ''internal''))\<rparr>
     sample_SessionStore sample_session_request
   = Return ((None, False,
       Some (Wrapf (RequestError 500 ''internal'') ''UserInfo request with unexpected code '' 500)),
       sample_SessionStore)"
  by (simp add: AuthenticateRequest_def SessionFromRequest_def sample_SessionStore_def
      sample_session_request_def cookie_locate_def NewSession_def strictValidation_def
      provider_def constantly_def StatusUnauthorized_def)

text \<open>
  Claim C3, amended. Strict validation is on, the request resolves to a stored
  session with its token, and \<open>GetUserInfo\<close> fails with \<open>err\<close>. If \<open>err\<close> is a
  \<open>RequestError\<close> of status 401, \<open>AuthenticateRequest\<close> passes the request through
  (no identity, not handled, nil error) and the store no longer holds the record of
  the session. If \<open>err\<close> is a \<open>RequestError\<close> of any other status, or no
  \<open>RequestError\<close> at all, it returns no identity and a non-nil error that wraps
  \<open>err\<close>, with handled unset, and the store is unchanged.
\<close>

theorem AuthenticateRequest_strict:
  assumes "strictSessionValidation sa"
    and "locate store r = Some sid"
    and "session_records store sid = Some rec"
    and "stored_Values rec UserSessionOAuth2Tokens = Some (VToken token)"
    and "GetUserInfo (sm sa) token = Some err"
  shows "(\<forall>body. As_RequestError err = Some (401, body) \<longrightarrow>
            AuthenticateRequest sa store r =
              Return ((None, False, None),
                store\<lparr>session_records := (session_records store)(sid := None)\<rparr>)) \<and>
         (\<forall>code body. As_RequestError err = Some (code, body) \<longrightarrow> code \<noteq> 401 \<longrightarrow>
            AuthenticateRequest sa store r =
              Return ((None, False,
                Some (Wrapf err ''UserInfo request with unexpected code '' code)), store)) \<and>
         (As_RequestError err = None \<longrightarrow>
            AuthenticateRequest sa store r =
              Return ((None, False,
                Some (Wrap err ''UserInfo request failed unexpectedly'')), store))"
  using assms
  by (simp add: AuthenticateRequest_def SessionFromRequest_stored strictValidation_def
      NewSession_def RevokeSession_def StatusUnauthorized_def)

theorem AuthenticateRequest_strict_witness:
  "AuthenticateRequest
     \<lparr>strictSessionValidation = True, sm = provider (Some (RequestError 401 ''expired''))\<rparr>
     sample_SessionStore sample_session_request
   = Return ((None, False, None),
       sample_SessionStore\<lparr>session_records :=
         (session_records sample_SessionStore)(''S1'' := None)\<rparr>) \<and>
   AuthenticateRequest
     \<lparr>strictSessionValidation = True, sm = provider (Some (RequestError 503 ''down''))\<rparr>
     sample_SessionStore sample_session_request
   = Return ((None, False,
       Some (Wrapf (RequestError 503 ''down'') ''UserInfo request with unexpected code '' 503)),
       sample_SessionStore) \<and>
   AuthenticateRequest
     \<lparr>strictSessionValidation = True, sm = provider (Some (New ''connection refused''))\<rparr>
     sample_SessionStore sample_session_request
   = Return ((None, False,
       Some (Wrap (New ''connection refused'') ''UserInfo request failed unexpectedly'')),
       sample_SessionStore)"
proof -
  have tok: "stored_Values \<lparr>stored_Values = [UserSessionUserID \<mapsto> VString ''alice'',
             UserSessionOAuth2Tokens \<mapsto> VToken \<lparr>AccessToken = ''at''\<rparr>],
           stored_MaxAge = 3600\<rparr> UserSessionOAuth2Tokens = Some (VToken \<lparr>AccessToken = ''at''\<rparr>)"
    by simp
  have strict: "strictSessionValidation \<lparr>strictSessionValidation = True, sm = m\<rparr>" for m
    by simp
  have answer: "GetUserInfo (sm \<lparr>strictSessionValidation = True, sm = provider (Some e)\<rparr>)
      \<lparr>AccessToken = ''at''\<rparr> = Some e" for e
    by (simp add: provider_def constantly_def)
  note inst = AuthenticateRequest_strict
    [OF strict sample_session_located sample_session_record tok answer]
  from inst [of "RequestError 401 ''expired''"] inst [of "RequestError 503 ''down''"]
    inst [of "New ''connection refused''"]
  show ?thesis
    by simp
qed

text \<open>
  Claim C7 (group default). The request resolves to a stored session whose user
  identifier is a string, and strict validation is off or the provider accepts the
  session's token. If the record has no groups value, or one that is not a list of
  strings, \<open>AuthenticateRequest\<close> authenticates the request: it returns an identity
  with the stored name and an empty list of groups, handled, with a nil error.
\<close>

theorem AuthenticateRequest_group_default:
  assumes "locate store r = Some sid"
    and "session_records store sid = Some rec"
    and "\<not> strictSessionValidation sa \<or>
         (\<exists>token. stored_Values rec UserSessionOAuth2Tokens = Some (VToken token) \<and>
                  GetUserInfo (sm sa) token = None)"
    and "stored_Values rec UserSessionUserID = Some (VString name)"
    and "\<forall>gs. stored_Values rec UserSessionGroups \<noteq> Some (VStrings gs)"
  shows "AuthenticateRequest sa store r =
     Return ((Some \<lparr>resp_User = \<lparr>info_Name = name, info_Groups = []\<rparr>\<rparr>, True, None), store)"
proof -
  have g: "(case stored_Values rec UserSessionGroups of
              Some (VStrings gs) \<Rightarrow> gs | _ \<Rightarrow> []) = []"
    using assms(5) by (auto split: option.splits session_value.splits)
  from assms(3) have v: "strictValidation sa store
     ((NewSession (session_cookie store))\<lparr>ID := sid, Values := stored_Values rec,
        Options_MaxAge := stored_MaxAge rec, IsNew := False\<rparr>) = Return None"
    by (auto simp: strictValidation_def)
  show ?thesis
    by (simp add: AuthenticateRequest_def SessionFromRequest_stored [OF assms(1,2)] v g assms(4))
qed

theorem AuthenticateRequest_group_default_witness:
  "AuthenticateRequest \<lparr>strictSessionValidation = False, sm = provider None\<rparr>
     sample_SessionStore sample_session_request
   = Return ((Some \<lparr>resp_User = \<lparr>info_Name = ''alice'', info_Groups = []\<rparr>\<rparr>, True, None),
       sample_SessionStore) \<and>
   AuthenticateRequest \<lparr>strictSessionValidation = True, sm = provider None\<rparr>
     sample_SessionStore sample_session_request
   = Return ((Some \<lparr>resp_User = \<lparr>info_Name = ''alice'', info_Groups = []\<rparr>\<rparr>, True, None),
       sample_SessionStore)"
proof -
  let ?rec = "\<lparr>stored_Values = [UserSessionUserID \<mapsto> VString ''alice'',
             UserSessionOAuth2Tokens \<mapsto> VToken \<lparr>AccessToken = ''at''\<rparr>],
           stored_MaxAge = 3600\<rparr>"
  have off: "\<not> strictSessionValidation \<lparr>strictSessionValidation = False, sm = provider None\<rparr> \<or>
         (\<exists>token. stored_Values ?rec UserSessionOAuth2Tokens = Some (VToken token) \<and>
            GetUserInfo (sm \<lparr>strictSessionValidation = False, sm = provider None\<rparr>) token = None)"
    by simp
  have on: "\<not> strictSessionValidation \<lparr>strictSessionValidation = True, sm = provider None\<rparr> \<or>
         (\<exists>token. stored_Values ?rec UserSessionOAuth2Tokens = Some (VToken token) \<and>
            GetUserInfo (sm \<lparr>strictSessionValidation = True, sm = provider None\<rparr>) token = None)"
    by (simp add: provider_def constantly_def)
  have uid: "stored_Values ?rec UserSessionUserID = Some (VString ''alice'')"
    by (simp add: UserSessionUserID_def UserSessionOAuth2Tokens_def)
  have nogroups: "\<forall>gs. stored_Values ?rec UserSessionGroups \<noteq> Some (VStrings gs)"
    by (simp add: UserSessionUserID_def UserSessionOAuth2Tokens_def UserSessionGroups_def)
  from AuthenticateRequest_group_default
      [OF sample_session_located sample_session_record off uid nogroups]
    AuthenticateRequest_group_default
      [OF sample_session_located sample_session_record on uid nogroups]
  show ?thesis
    by simp
qed

section \<open>Properties of the bearer ID token authenticator\<close>

lemma sample_bearer_token:
  "GetBearerToken (Header_Get sample_bearer_request ''Authorization'') = ''tok''"
  by code_simp

lemma sample_bearer:
  "GetBearerToken (Header_Get sample_bearer_request (Header (sample_IDTokenAuthenticator c))) =
     ''tok''"
  by (simp add: sample_IDTokenAuthenticator_def sample_bearer_token)

text \<open>
  Claim C8 (anonymous identity on a missing userID claim). The request carries a
  bearer token that verifies and whose claims can be read, but \<open>claims.UserID()\<close>
  fails because the userID claim is not there. Then \<open>Authenticate\<close> answers handled
  with a nil error and the empty user: no name, no groups (and no extra).
\<close>

theorem Authenticate_anonymous:
  assumes "GetBearerToken (Header_Get r (Header s)) = bearer"
    and "bearer \<noteq> []"
    and "VerifyWithoutClientId s bearer = Inr token"
    and "NewClaims s token (UserIDClaim s) (GroupsClaim s) = Inr claims"
    and "claims_UserID claims = Inl err"
  shows "fst (Authenticate s w r) =
           (Some \<lparr>Name = [], UID = [], Groups = [], Extra = Map.empty\<rparr>, True, None)"
  using assms by (simp add: Authenticate_def Let_def empty_User_def)

theorem Authenticate_anonymous_witness:
  "fst (Authenticate
     (sample_IDTokenAuthenticator
        \<lparr>claims_UserID = Inl (New ''no userID claim''), claims_Groups = []\<rparr>)
     \<lparr>w_Header = Map.empty, w_SetCookie = []\<rparr> sample_bearer_request)
   = (Some \<lparr>Name = [], UID = [], Groups = [], Extra = Map.empty\<rparr>, True, None)"
proof -
  let ?c = "\<lparr>claims_UserID = Inl (New ''no userID claim''), claims_Groups = []\<rparr>"
  have h2: "''tok'' \<noteq> []"
    by simp
  have h3: "VerifyWithoutClientId (sample_IDTokenAuthenticator ?c) ''tok'' = Inr ''tok''"
    by (simp add: sample_IDTokenAuthenticator_def)
  have h4: "NewClaims (sample_IDTokenAuthenticator ?c) ''tok''
      (UserIDClaim (sample_IDTokenAuthenticator ?c)) (GroupsClaim (sample_IDTokenAuthenticator ?c))
      = Inr ?c"
    by (simp add: sample_IDTokenAuthenticator_def claims_of_token_def)
  have h5: "claims_UserID ?c = Inl (New ''no userID claim'')"
    by simp
  show ?thesis
    by (rule Authenticate_anonymous [OF sample_bearer h2 h3 h4 h5])
qed

text \<open>
  Claim C9 (auth-method extra recorded), as stated, fails. A verified token without
  the userID claim is answered handled, with a nil error, by the empty user, whose
  extra map has no \<open>auth-method\<close> entry.
\<close>

theorem Authenticate_anonymous_no_extra:
  "fst (Authenticate
     (sample_IDTokenAuthenticator
        \<lparr>claims_UserID = Inl (New ''no userID claim''), claims_Groups = []\<rparr>)
     \<lparr>w_Header = Map.empty, w_SetCookie = []\<rparr> sample_bearer_request)
   = (Some empty_User, True, None) \<and>
   Extra empty_User ''auth-method'' \<noteq> Some [''header'']"
  by (simp add: Authenticate_def Let_def sample_bearer_token empty_User_def
      sample_IDTokenAuthenticator_def claims_of_token_def)

text \<open>
  Claim C9, amended. Whenever \<open>Authenticate\<close> returns an identity, the request is
  handled and the error is nil, the bearer token verified and its claims were read.
  If the claims hold the userID claim, the identity has that name, the groups of the
  claims, and the extra map whose only entry is \<open>auth-method\<close> with \<open>[header]\<close>; if
  they do not, the identity is the empty user.
\<close>

theorem Authenticate_extra:
  assumes "fst (Authenticate s w r) = (Some u, handled, err)"
  shows "handled \<and> err = None \<and>
    (\<exists>token claims.
       VerifyWithoutClientId s (GetBearerToken (Header_Get r (Header s))) = Inr token \<and>
       NewClaims s token (UserIDClaim s) (GroupsClaim s) = Inr claims \<and>
       (case claims_UserID claims of
          Inl e \<Rightarrow> u = empty_User
        | Inr userID \<Rightarrow> Name u = userID \<and> Groups u = claims_Groups claims \<and>
            Extra u = [''auth-method'' \<mapsto> [''header'']]))"
  using assms
  by (auto simp: Authenticate_def Let_def split: if_splits sum.splits)

theorem Authenticate_extra_witness:
  "fst (Authenticate
     (sample_IDTokenAuthenticator \<lparr>claims_UserID = Inr ''alice'', claims_Groups = [''eng'']\<rparr>)
     \<lparr>w_Header = Map.empty, w_SetCookie = []\<rparr> sample_bearer_request)
   = (Some \<lparr>Name = ''alice'', UID = [], Groups = [''eng''],
        Extra = [''auth-method'' \<mapsto> [''header'']]\<rparr>, True, None) \<and>
   Extra \<lparr>Name = ''alice'', UID = [], Groups = [''eng''],
        Extra = [''auth-method'' \<mapsto> [''header'']]\<rparr> ''auth-method'' = Some [''header'']"
proof -
  have ev: "fst (Authenticate
     (sample_IDTokenAuthenticator \<lparr>claims_UserID = Inr ''alice'', claims_Groups = [''eng'']\<rparr>)
     \<lparr>w_Header = Map.empty, w_SetCookie = []\<rparr> sample_bearer_request)
   = (Some \<lparr>Name = ''alice'', UID = [], Groups = [''eng''],
        Extra = [''auth-method'' \<mapsto> [''header'']]\<rparr>, True, None)"
    by (simp add: Authenticate_def Let_def sample_bearer_token
        sample_IDTokenAuthenticator_def claims_of_token_def)
  from Authenticate_extra [OF ev] ev show ?thesis
    by simp
qed

end
